theory Spec2Isabelle
  imports Main "HOL-Library.Sublist"
begin

section \<open>Artifact descriptions generated by a model service\<close>

text \<open>
  The development follows three source files of the artifacts application:
  \<^verbatim>\<open>models.py\<close> (the record \<^verbatim>\<open>Artifact\<close> and its staleness test),
  \<^verbatim>\<open>services.py\<close> (the prompt and the generator that reads the model service) and
  \<^verbatim>\<open>views.py\<close> (the event stream sent to the client, the cached description and its
  reset).

  Python text is a \<open>string\<close> holding its UTF-8 bytes; nothing below counts characters.
  Times are microseconds on the clock of \<^verbatim>\<open>timezone.now()\<close>, the resolution of
  \<^verbatim>\<open>datetime\<close>. What the libraries decide (the HTTP exchange, \<^verbatim>\<open>json.loads\<close>,
  the database write, the clock) is an argument of the model, never a choice made
  inside it.
\<close>

subsection \<open>The artifact\<close>

text \<open>
  The fields of \<^verbatim>\<open>Artifact\<close> that the description pipeline reads or writes. A
  nullable column is an \<open>option\<close>; the columns the pipeline never touches (id, status,
  image count, model version, creation and update times) are left out.
\<close>

record artifact =
  name :: string
  description :: "string option"
  time_period :: "string option"
  estimated_year :: "string option"
  origin_location :: "string option"
  ai_description :: "string option"
  ai_description_generated_at :: "int option"

text \<open>
  Python's truth test on a nullable text (\<^verbatim>\<open>if self.ai_description:\<close>): both
  \<^verbatim>\<open>None\<close> and the empty text are false.
\<close>

definition filled :: "string option \<Rightarrow> bool" where
  "filled v = (case v of None \<Rightarrow> False | Some s \<Rightarrow> s \<noteq> [])"

text \<open>\<^verbatim>\<open>timedelta(days=n)\<close> in microseconds.\<close>

definition timedelta_days :: "int \<Rightarrow> int" where
  "timedelta_days n = n * 86400 * 1000000"

text \<open>
  \<^verbatim>\<open>Artifact.needs_ai_description\<close>, with the clock reading \<open>now\<close> as an
  argument. A \<^verbatim>\<open>datetime\<close> is always true in a truth test, so the second test
  only asks whether the timestamp is \<^verbatim>\<open>None\<close>.
\<close>

definition needs_ai_description :: "artifact \<Rightarrow> int \<Rightarrow> bool" where
  "needs_ai_description self now =
     (if \<not> filled (ai_description self) then True
      else (case ai_description_generated_at self of
              Some generated_at \<Rightarrow>
                (let age = now - generated_at in age > timedelta_days 30)
            | None \<Rightarrow> False))"

subsection \<open>The prompt\<close>

text \<open>The opening of the f-string of \<^verbatim>\<open>_create_prompt\<close> up to the
  artifact name (151 bytes of UTF-8: the instruction sentence, a blank line, the
  information heading and the name label ending in a colon and a space).\<close>

definition prompt_head :: string where
  "prompt_head = map (char_of :: nat \<Rightarrow> char)
    [235, 139, 185, 236, 139, 160, 236, 157, 128, 32, 237, 149, 156, 234, 181, 173, 32, 235,
     172, 184, 237, 153, 148, 236, 158, 172, 32, 236, 160, 132, 235, 172, 184, 234, 176, 128,
     236, 158, 133, 235, 139, 136, 235, 139, 164, 46, 32, 235, 139, 164, 236, 157, 140, 32,
     236, 156, 160, 235, 172, 188, 236, 151, 144, 32, 235, 140, 128, 237, 149, 180, 32, 236,
     158, 144, 236, 132, 184, 237, 149, 152, 234, 179, 160, 32, 237, 157, 165, 235, 175, 184,
     235, 161, 173, 234, 178, 140, 32, 236, 132, 164, 235, 170, 133, 237, 149, 180, 236, 163,
     188, 236, 132, 184, 236, 154, 148, 46, 10, 10, 240, 159, 147, 140, 32, 236, 156, 160,
     235, 172, 188, 32, 236, 160, 149, 235, 179, 180, 58, 10, 45, 32, 236, 156, 160, 235,
     172, 188, 235, 170, 133, 58, 32]"

text \<open>A newline, a bullet (U+2022) and the label of the time period, ending in
  \<^verbatim>\<open>: \<close>.\<close>

definition time_period_label :: string where
  "time_period_label = map (char_of :: nat \<Rightarrow> char)
    [10, 226, 128, 162, 32, 236, 139, 156, 235, 140, 128, 58, 32]"

text \<open>The same for the estimated year.\<close>

definition estimated_year_label :: string where
  "estimated_year_label = map (char_of :: nat \<Rightarrow> char)
    [10, 226, 128, 162, 32, 236, 182, 148, 236, 160, 149, 32, 236, 151, 176, 235, 143, 132,
     58, 32]"

text \<open>The same for the place of origin.\<close>

definition origin_location_label :: string where
  "origin_location_label = map (char_of :: nat \<Rightarrow> char)
    [10, 226, 128, 162, 32, 236, 182, 156, 237, 134, 160, 236, 167, 128, 58, 32]"

text \<open>The fixed writing guide appended last (453 bytes of UTF-8: two newlines, the
  three numbered parts, the five cautions, and the final label that the model completes).\<close>

definition prompt_tail :: string where
  "prompt_tail = map (char_of :: nat \<Rightarrow> char)
    [10, 10, 240, 159, 147, 157, 32, 236, 132, 164, 235, 170, 133, 32, 236, 158, 145, 236,
     132, 177, 32, 234, 176, 128, 236, 157, 180, 235, 147, 156, 58, 10, 49, 46, 32, 236, 151,
     173, 236, 130, 172, 236, 160, 129, 32, 235, 176, 176, 234, 178, 189, 234, 179, 188, 32,
     236, 139, 156, 235, 140, 128, 236, 160, 129, 32, 235, 167, 165, 235, 157, 189, 32, 40,
     50, 45, 51, 235, 172, 184, 236, 158, 165, 41, 10, 50, 46, 32, 236, 156, 160, 235, 172,
     188, 236, 157, 152, 32, 237, 138, 185, 236, 167, 149, 234, 179, 188, 32, 236, 160, 156,
     236, 158, 145, 32, 234, 184, 176, 235, 178, 149, 32, 40, 50, 45, 51, 235, 172, 184, 236,
     158, 165, 41, 10, 51, 46, 32, 235, 172, 184, 237, 153, 148, 236, 160, 129, 47, 236, 152,
     136, 236, 136, 160, 236, 160, 129, 32, 234, 176, 128, 236, 185, 152, 236, 153, 128, 32,
     236, 157, 152, 236, 157, 152, 32, 40, 49, 45, 50, 235, 172, 184, 236, 158, 165, 41, 10,
     10, 226, 154, 160, 239, 184, 143, 32, 236, 163, 188, 236, 157, 152, 236, 130, 172, 237,
     149, 173, 58, 10, 45, 32, 236, 158, 144, 236, 151, 176, 236, 138, 164, 235, 159, 189,
     234, 179, 160, 32, 236, 157, 180, 237, 149, 180, 237, 149, 152, 234, 184, 176, 32, 236,
     137, 172, 236, 154, 180, 32, 237, 149, 156, 234, 181, 173, 236, 150, 180, 235, 161, 156,
     32, 236, 158, 145, 236, 132, 177, 10, 45, 32, 236, 160, 132, 235, 172, 184, 32, 236,
     154, 169, 236, 150, 180, 235, 138, 148, 32, 236, 137, 189, 234, 178, 140, 32, 237, 146,
     128, 236, 150, 180, 236, 132, 156, 32, 236, 132, 164, 235, 170, 133, 10, 45, 32, 237,
     157, 165, 235, 175, 184, 235, 161, 156, 236, 154, 180, 32, 236, 157, 180, 236, 149, 188,
     234, 184, 176, 235, 130, 152, 32, 236, 151, 144, 237, 148, 188, 236, 134, 140, 235, 147,
     156, 32, 237, 143, 172, 237, 149, 168, 10, 45, 32, 236, 180, 157, 32, 50, 48, 48, 45,
     51, 48, 48, 236, 158, 144, 32, 235, 130, 180, 236, 153, 184, 235, 161, 156, 32, 236,
     158, 145, 236, 132, 177, 10, 45, 32, 236, 161, 180, 235, 140, 147, 235, 167, 144, 32,
     236, 130, 172, 236, 154, 169, 237, 149, 152, 236, 167, 128, 32, 236, 149, 138, 234, 179,
     160, 32, 237, 143, 137, 236, 132, 156, 235, 172, 184, 236, 156, 188, 235, 161, 156, 32,
     236, 158, 145, 236, 132, 177, 10, 10, 236, 132, 164, 235, 170, 133, 58]"

text \<open>The placeholder of \<^verbatim>\<open>get_artifact_description\<close> for an artifact with no
  description at all.\<close>

definition no_description :: string where
  "no_description = map (char_of :: nat \<Rightarrow> char)
    [236, 132, 164, 235, 170, 133, 236, 157, 180, 32, 236, 151, 134, 236, 138, 181, 235, 139,
     136, 235, 139, 164, 46]"

text \<open>
  \<^verbatim>\<open>OllamaService._create_prompt\<close>: the head with the name, then one
  \<^verbatim>\<open>prompt += ...\<close> for each optional field that passes the truth test, then the
  tail.
\<close>

definition create_prompt ::
  "string \<Rightarrow> string option \<Rightarrow> string option \<Rightarrow> string option \<Rightarrow> string" where
  "create_prompt artifact_name time_period' estimated_year' origin_location' =
     (let prompt = prompt_head @ artifact_name;
          prompt = (case time_period' of
                      Some v \<Rightarrow> if v \<noteq> [] then prompt @ time_period_label @ v else prompt
                    | None \<Rightarrow> prompt);
          prompt = (case estimated_year' of
                      Some v \<Rightarrow> if v \<noteq> [] then prompt @ estimated_year_label @ v else prompt
                    | None \<Rightarrow> prompt);
          prompt = (case origin_location' of
                      Some v \<Rightarrow> if v \<noteq> [] then prompt @ origin_location_label @ v else prompt
                    | None \<Rightarrow> prompt);
          prompt = prompt @ prompt_tail
      in prompt)"

subsection \<open>Decoded lines of the response body\<close>

text \<open>
  A value returned by \<^verbatim>\<open>json.loads\<close>. An object is the list of its entries with
  distinct keys, as the \<^verbatim>\<open>dict\<close> holds them. The code only asks a number whether
  it is zero, so a number is an integer here and a non-integral one stands as any
  non-zero integer.
\<close>

datatype json =
    JNull
  | JBool bool
  | JNum int
  | JStr string
  | JArr "json list"
  | JObj "(string \<times> json) list"

text \<open>
  The exceptions the code can meet, by the \<^verbatim>\<open>except\<close> clause that catches them:
  the two classes of \<^verbatim>\<open>httpx\<close> named in the generator, the three that Python
  raises when a decoded value is not an object, and any other (with its text).
\<close>

datatype exn =
    TimeoutException
  | ConnectError
  | TypeError
  | AttributeError
  | KeyError
  | OtherException string

text \<open>Python's truth test on a decoded value.\<close>

fun truthy :: "json \<Rightarrow> bool" where
  "truthy JNull = False"
| "truthy (JBool b) = b"
| "truthy (JNum n) = (n \<noteq> 0)"
| "truthy (JStr s) = (s \<noteq> [])"
| "truthy (JArr xs) = (xs \<noteq> [])"
| "truthy (JObj kvs) = (kvs \<noteq> [])"

text \<open>
  \<^verbatim>\<open>'response' in data\<close>: a key test on an object, an element test on an array,
  a substring test on a text, and a \<^verbatim>\<open>TypeError\<close> on the rest.
\<close>

fun contains_response :: "json \<Rightarrow> exn + bool" where
  "contains_response (JObj kvs) = Inr (map_of kvs ''response'' \<noteq> None)"
| "contains_response (JArr xs) = Inr (JStr ''response'' \<in> set xs)"
| "contains_response (JStr s) = Inr (sublist ''response'' s)"
| "contains_response _ = Inl TypeError"

text \<open>\<^verbatim>\<open>data['response']\<close>: only an object can be indexed by a text.\<close>

fun getitem_response :: "json \<Rightarrow> exn + json" where
  "getitem_response (JObj kvs) =
     (case map_of kvs ''response'' of Some v \<Rightarrow> Inr v | None \<Rightarrow> Inl KeyError)"
| "getitem_response _ = Inl TypeError"

text \<open>\<^verbatim>\<open>data.get('done', False)\<close>: only an object has \<^verbatim>\<open>get\<close>.\<close>

fun get_done :: "json \<Rightarrow> exn + json" where
  "get_done (JObj kvs) =
     Inr (case map_of kvs ''done'' of Some v \<Rightarrow> v | None \<Rightarrow> JBool False)"
| "get_done _ = Inl AttributeError"

text \<open>
  One line of \<^verbatim>\<open>response.iter_lines()\<close> as the loop sees it: \<open>Blank\<close> when
  \<^verbatim>\<open>line.strip()\<close> is empty, \<open>Malformed msg\<close> when \<^verbatim>\<open>json.loads\<close> raises
  \<^verbatim>\<open>JSONDecodeError\<close> with text \<open>msg\<close>, \<open>Parsed data\<close> when it returns
  \<open>data\<close>.
\<close>

datatype line = Blank | Malformed string | Parsed json

text \<open>
  What the model service does with one request: the call raises before any response
  (\<open>Failed\<close>), or a response arrives with a status code, the lines of its body, and
  the exception that ends the reading of the body early, if any (\<open>None\<close> is a clean
  end of the body).
\<close>

datatype upstream =
    Failed exn
  | Response nat "line list" "exn option"

text \<open>The service as a function of the prompt and the \<^verbatim>\<open>stream\<close> flag posted to it.\<close>

type_synonym ollama = "string \<Rightarrow> bool \<Rightarrow> upstream"

subsection \<open>The generator of events\<close>

text \<open>
  The text of an error, one constructor for each place that builds one:
  \<^verbatim>\<open>f'Ollama API error: {status_code}'\<close>, \<^verbatim>\<open>f'JSON decode error: {str(e)}'\<close>,
  \<^verbatim>\<open>'Ollama API timeout'\<close>, \<^verbatim>\<open>'Cannot connect to Ollama. Is it running?'\<close>,
  \<^verbatim>\<open>f'Unexpected error: {str(e)}'\<close>, and the bare \<^verbatim>\<open>str(e)\<close> of the view.
\<close>

datatype message =
    OllamaApiError nat
  | JsonDecodeError string
  | OllamaApiTimeout
  | CannotConnect
  | UnexpectedError exn
  | ExceptionText exn

text \<open>
  The dictionaries the generator yields: \<^verbatim>\<open>{'chunk': v}\<close>, \<^verbatim>\<open>{'done': True}\<close>,
  \<^verbatim>\<open>{'error': msg}\<close>. A chunk carries whatever value the line had under
  \<^verbatim>\<open>response\<close>.
\<close>

datatype event = Chunk json | Done | Error message

text \<open>
  The \<^verbatim>\<open>for line in response.iter_lines()\<close> loop. It returns the events yielded
  and the exception that leaves the loop, if any. A malformed line yields an error and
  the loop goes on; a line whose \<^verbatim>\<open>done\<close> is true yields \<open>Done\<close> and breaks; an
  exception raised by a test on the decoded value is not a \<^verbatim>\<open>JSONDecodeError\<close> and
  leaves the loop; when the lines are used up, the loop ends as the body did.
\<close>

fun read_lines :: "line list \<Rightarrow> exn option \<Rightarrow> event list \<times> exn option" where
  "read_lines [] ending = ([], ending)"
| "read_lines (Blank # lines) ending = read_lines lines ending"
| "read_lines (Malformed msg # lines) ending =
     (let (events, raised) = read_lines lines ending
      in (Error (JsonDecodeError msg) # events, raised))"
| "read_lines (Parsed data # lines) ending =
     (case contains_response data of
        Inl e \<Rightarrow> ([], Some e)
      | Inr has_response \<Rightarrow>
          (case (if has_response
                 then (case getitem_response data of
                         Inl e \<Rightarrow> Inl e
                       | Inr v \<Rightarrow> Inr [Chunk v])
                 else Inr []) of
             Inl e \<Rightarrow> ([], Some e)
           | Inr chunk \<Rightarrow>
               (case get_done data of
                  Inl e \<Rightarrow> (chunk, Some e)
                | Inr d \<Rightarrow>
                    if truthy d then (chunk @ [Done], None)
                    else (let (events, raised) = read_lines lines ending
                          in (chunk @ events, raised)))))"

text \<open>The three \<^verbatim>\<open>except\<close> clauses around the request, in their order.\<close>

fun handler :: "exn \<Rightarrow> event" where
  "handler TimeoutException = Error OllamaApiTimeout"
| "handler ConnectError = Error CannotConnect"
| "handler e = Error (UnexpectedError e)"

text \<open>
  \<^verbatim>\<open>OllamaService.generate_artifact_description\<close>: the whole sequence of events of
  one call, in the order they are yielded.
\<close>

definition generate_artifact_description ::
  "ollama \<Rightarrow> string \<Rightarrow> string option \<Rightarrow> string option \<Rightarrow> string option \<Rightarrow> bool \<Rightarrow> event list"
  where
  "generate_artifact_description service artifact_name time_period' estimated_year'
       origin_location' stream =
     (let prompt = create_prompt artifact_name time_period' estimated_year' origin_location'
      in case service prompt stream of
           Failed e \<Rightarrow> [handler e]
         | Response status_code lines ending \<Rightarrow>
             if status_code \<noteq> 200 then [Error (OllamaApiError status_code)]
             else (case read_lines lines ending of
                     (events, None) \<Rightarrow> events
                   | (events, Some e) \<Rightarrow> events @ [handler e]))"

subsection \<open>The event stream of the view\<close>

text \<open>
  The frames sent to the client, by their \<^verbatim>\<open>type\<close> and payload. The encoding of a
  frame (\<^verbatim>\<open>data: \<close>, the object written by \<^verbatim>\<open>json.dumps\<close>, a blank line) is one
  to one and is left out.
\<close>

datatype frame =
    ChunkFrame string
  | ErrorFrame message
  | CompleteFrame string

text \<open>
  What the surroundings decide during one request: the reading of the clock and
  whether \<^verbatim>\<open>save\<close> raises.
\<close>

record env =
  now :: int
  save_fault :: "exn option"

text \<open>
  \<^verbatim>\<open>artifact.save(update_fields=['ai_description', 'ai_description_generated_at'])\<close>:
  the two named fields of the object are written to the stored row and no other. A
  save that raises writes nothing.
\<close>

definition save_update_fields :: "exn option \<Rightarrow> artifact \<Rightarrow> artifact \<Rightarrow> exn + artifact" where
  "save_update_fields fault obj row =
     (case fault of
        Some e \<Rightarrow> Inl e
      | None \<Rightarrow> Inr (row\<lparr>ai_description := ai_description obj,
                        ai_description_generated_at := ai_description_generated_at obj\<rparr>))"

text \<open>
  The \<^verbatim>\<open>for chunk in ...\<close> loop of \<^verbatim>\<open>event_stream\<close> inside its
  \<^verbatim>\<open>try\<close>. The arguments are the artifact object, the stored row, the text gathered
  so far and the events still to come; the result is the frames yielded and the stored
  row at the end. Adding a chunk that is not a text to \<^verbatim>\<open>full_description\<close>
  raises \<^verbatim>\<open>TypeError\<close>, and so may the save: both reach the
  \<^verbatim>\<open>except Exception\<close> of the view, which yields an error frame. When the events are
  used up the loop ends and nothing more is yielded.
\<close>

fun event_loop ::
  "env \<Rightarrow> artifact \<Rightarrow> artifact \<Rightarrow> string \<Rightarrow> event list \<Rightarrow> frame list \<times> artifact" where
  "event_loop env obj row full_description [] = ([], row)"
| "event_loop env obj row full_description (Chunk v # events) =
     (case v of
        JStr s \<Rightarrow>
          (let (frames, row') = event_loop env obj row (full_description @ s) events
           in (ChunkFrame s # frames, row'))
      | _ \<Rightarrow> ([ErrorFrame (ExceptionText TypeError)], row))"
| "event_loop env obj row full_description (Error msg # events) =
     ([ErrorFrame msg], row)"
| "event_loop env obj row full_description (Done # events) =
     (let obj = obj\<lparr>ai_description := Some full_description\<rparr>;
          obj = obj\<lparr>ai_description_generated_at := Some (now env)\<rparr>
      in case save_update_fields (save_fault env) obj row of
           Inl e \<Rightarrow> ([ErrorFrame (ExceptionText e)], row)
         | Inr row' \<Rightarrow> ([CompleteFrame full_description], row'))"

text \<open>
  \<^verbatim>\<open>generate_artifact_description_stream\<close> for an artifact that
  \<^verbatim>\<open>get_object_or_404\<close> found: the object is the stored row as read, and the events
  are those of the generator called with the fields of the artifact.
\<close>

definition event_stream :: "ollama \<Rightarrow> env \<Rightarrow> artifact \<Rightarrow> frame list \<times> artifact" where
  "event_stream service env artifact =
     event_loop env artifact artifact []
       (generate_artifact_description service (name artifact) (time_period artifact)
          (estimated_year artifact) (origin_location artifact) True)"

subsection \<open>Reading and resetting the cached description\<close>

record description_response =
  response_description :: string
  is_ai_generated :: bool
  generated_at :: "int option"
  needs_regeneration :: bool
  artifact_name :: string
  response_time_period :: "string option"

text \<open>
  \<^verbatim>\<open>get_artifact_description\<close>: the cached description when the truth test on it
  passes, else \<^verbatim>\<open>artifact.description or\<close> the placeholder. It writes nothing.
\<close>

definition get_artifact_description :: "int \<Rightarrow> artifact \<Rightarrow> description_response" where
  "get_artifact_description clock artifact =
     (let (description', is_ai) =
            (if filled (ai_description artifact)
             then (case ai_description artifact of Some s \<Rightarrow> s | None \<Rightarrow> [], True)
             else (if filled (description artifact)
                   then (case description artifact of Some s \<Rightarrow> s | None \<Rightarrow> [])
                   else no_description, False))
      in \<lparr>response_description = description',
          is_ai_generated = is_ai,
          generated_at = ai_description_generated_at artifact,
          needs_regeneration = needs_ai_description artifact clock,
          artifact_name = name artifact,
          response_time_period = time_period artifact\<rparr>)"

text \<open>
  \<^verbatim>\<open>regenerate_artifact_description\<close>: both fields are set to \<^verbatim>\<open>None\<close> and
  saved. The view has no \<^verbatim>\<open>try\<close>: a save that raises ends the request with that
  exception and the stored row as it was.
\<close>

definition regenerate_artifact_description :: "exn option \<Rightarrow> artifact \<Rightarrow> (exn + unit) \<times> artifact"
  where
  "regenerate_artifact_description fault artifact =
     (let obj = artifact\<lparr>ai_description := None\<rparr>;
          obj = obj\<lparr>ai_description_generated_at := None\<rparr>
      in case save_update_fields fault obj artifact of
           Inl e \<Rightarrow> (Inl e, artifact)
         | Inr row' \<Rightarrow> (Inr (), row'))"

subsection \<open>The words of the specification\<close>

text \<open>
  The line of an optional field in the prompt: the label and the value when the field
  is present, that is, passes the truth test of the code; nothing otherwise.
\<close>

definition optional_line :: "string \<Rightarrow> string option \<Rightarrow> string" where
  "optional_line label v = (if filled v then label @ the v else [])"

text \<open>
  The content of a chunk frame.
\<close>

fun chunk_content :: "frame \<Rightarrow> string" where
  "chunk_content (ChunkFrame s) = s"
| "chunk_content _ = []"

text \<open>
  Tests on one event: a chunk; an error; an event that is not a chunk carrying
  something other than text. The text a chunk carries, empty for any other event.
\<close>

fun is_chunk_event :: "event \<Rightarrow> bool" where
  "is_chunk_event (Chunk v) = True"
| "is_chunk_event e = False"

fun is_error_event :: "event \<Rightarrow> bool" where
  "is_error_event (Error msg) = True"
| "is_error_event e = False"

fun carries_text :: "event \<Rightarrow> bool" where
  "carries_text (Chunk (JStr s)) = True"
| "carries_text (Chunk v) = False"
| "carries_text e = True"

fun event_text :: "event \<Rightarrow> string" where
  "event_text (Chunk (JStr s)) = s"
| "event_text e = []"

text \<open>
  The two description fields agree: the timestamp is set exactly when the text is.
\<close>

definition consistent :: "artifact \<Rightarrow> bool" where
  "consistent a = ((ai_description_generated_at a \<noteq> None) = (ai_description a \<noteq> None))"

text \<open>
  A terminal event in the words of the specification: \<open>Done\<close> or any \<open>Error\<close>.
\<close>

fun is_terminal :: "event \<Rightarrow> bool" where
  "is_terminal (Chunk v) = False"
| "is_terminal Done = True"
| "is_terminal (Error msg) = True"

text \<open>
  At most one event of the sequence passes the test \<open>terminal\<close>, and none before
  the last does, so that no event follows one that passes.
\<close>

definition one_terminal_at_end :: "(event \<Rightarrow> bool) \<Rightarrow> event list \<Rightarrow> bool" where
  "one_terminal_at_end terminal events =
     (length (filter terminal events) \<le> 1 \<and> filter terminal (butlast events) = [])"

text \<open>
  The events after which the generator yields nothing more: \<open>Done\<close>, and every
  \<open>Error\<close> but that of a malformed line, which is followed by
  \<^verbatim>\<open>continue\<close>.
\<close>

fun ends_sequence :: "event \<Rightarrow> bool" where
  "ends_sequence (Chunk v) = False"
| "ends_sequence Done = True"
| "ends_sequence (Error (JsonDecodeError msg)) = False"
| "ends_sequence (Error msg) = True"

text \<open>
  What a decoded object contributes: the chunk under its \<^verbatim>\<open>response\<close> key,
  if it has one, and the truth of its \<^verbatim>\<open>done\<close> entry.
\<close>

definition response_chunk :: "(string \<times> json) list \<Rightarrow> event list" where
  "response_chunk kvs = (case map_of kvs ''response'' of Some v \<Rightarrow> [Chunk v] | None \<Rightarrow> [])"

definition done_flag :: "(string \<times> json) list \<Rightarrow> bool" where
  "done_flag kvs = truthy (case map_of kvs ''done'' of Some v \<Rightarrow> v | None \<Rightarrow> JBool False)"

subsection \<open>Concrete surroundings\<close>

text \<open>
  A service that gives the same answer to every request, an artifact with a cached
  description, and surroundings in which the clock reads 1000 and the save succeeds.
\<close>

definition replies :: "upstream \<Rightarrow> ollama" where
  "replies answer = (\<lambda>prompt stream. answer)"

definition mirror :: artifact where
  "mirror = \<lparr>name = ''mirror'', description = Some ''bronze'', time_period = Some ''Goryeo'',
     estimated_year = None, origin_location = Some ''Kaesong'',
     ai_description = Some ''old text'', ai_description_generated_at = Some 5\<rparr>"

definition calm :: env where
  "calm = \<lparr>now = 1000, save_fault = None\<rparr>"

section \<open>The loop of the generator\<close>

text \<open>
  A decoded object never raises: it yields its chunk, then either \<open>Done\<close> or the
  events of the lines that follow. Any other decoded value raises before anything is
  yielded for its line.
\<close>

lemma read_lines_object:
  "read_lines (Parsed (JObj kvs) # lines) ending =
     (if done_flag kvs then (response_chunk kvs @ [Done], None)
      else (response_chunk kvs @ fst (read_lines lines ending), snd (read_lines lines ending)))"
  by (auto simp: response_chunk_def done_flag_def split_beta split: option.splits)

lemma read_lines_not_object:
  "\<forall>kvs. data \<noteq> JObj kvs \<Longrightarrow> \<exists>e. read_lines (Parsed data # lines) ending = ([], Some e)"
  by (cases data) auto

lemma read_lines_malformed:
  "read_lines (Malformed msg # lines) ending =
     (Error (JsonDecodeError msg) # fst (read_lines lines ending), snd (read_lines lines ending))"
  by (simp add: split_beta)

text \<open>
  No event that ends the sequence occurs before the last event of the loop, and none at
  all when the loop is left by an exception; the handler then adds one.
\<close>

lemma ends_sequence_response_chunk: "filter ends_sequence (response_chunk kvs) = []"
  by (simp add: response_chunk_def split: option.splits)

lemma filter_butlast_empty: "filter P xs = [] \<Longrightarrow> filter P (butlast xs) = []"
  by (auto simp: filter_empty_conv dest: in_set_butlastD)

lemma read_lines_ends:
  "filter ends_sequence (butlast (fst (read_lines lines ending))) = [] \<and>
   (snd (read_lines lines ending) \<noteq> None \<longrightarrow>
      filter ends_sequence (fst (read_lines lines ending)) = [])"
proof (induction lines)
  case Nil
  then show ?case by simp
next
  case (Cons l lines)
  show ?case
  proof (cases l)
    case Blank
    with Cons show ?thesis by simp
  next
    case (Malformed msg)
    with Cons show ?thesis
      by (simp add: read_lines_malformed butlast.simps(2) del: read_lines.simps)
  next
    case (Parsed data)
    show ?thesis
    proof (cases "\<exists>kvs. data = JObj kvs")
      case True
      then obtain kvs where "data = JObj kvs" by blast
      with Parsed Cons show ?thesis
        by (simp add: read_lines_object butlast_append ends_sequence_response_chunk
            filter_butlast_empty del: read_lines.simps)
    next
      case False
      then obtain e where "read_lines (Parsed data # lines) ending = ([], Some e)"
        using read_lines_not_object by blast
      with Parsed show ?thesis by simp
    qed
  qed
qed

lemma handler_ends: "ends_sequence (handler e)"
  by (cases e) simp_all

lemma generate_ends:
  "one_terminal_at_end ends_sequence
     (generate_artifact_description service n tp ey ol stream)"
proof -
  have norm: "one_terminal_at_end ends_sequence events"
    if "filter ends_sequence (butlast events) = []" for events
  proof (cases events rule: rev_cases)
    case Nil
    then show ?thesis by (simp add: one_terminal_at_end_def)
  next
    case (snoc xs x)
    with that show ?thesis by (simp add: one_terminal_at_end_def)
  qed
  show ?thesis
  proof (cases "service (create_prompt n tp ey ol) stream")
    case (Failed e)
    then show ?thesis
      by (simp add: generate_artifact_description_def one_terminal_at_end_def)
  next
    case (Response status_code lines ending)
    show ?thesis
    proof (cases "status_code = 200")
      case False
      with Response show ?thesis
        by (simp add: generate_artifact_description_def one_terminal_at_end_def)
    next
      case True
      obtain events raised where r: "read_lines lines ending = (events, raised)"
        by (cases "read_lines lines ending")
      have e: "filter ends_sequence (butlast events) = []"
        "raised \<noteq> None \<longrightarrow> filter ends_sequence events = []"
        using read_lines_ends[of lines ending] r by simp_all
      show ?thesis
      proof (cases raised)
        case None
        with Response True r e(1) show ?thesis
          by (simp add: generate_artifact_description_def norm)
      next
        case (Some x)
        with e(2) have "filter ends_sequence (butlast (events @ [handler x])) = []" by simp
        from norm[OF this] Response True r Some show ?thesis
          by (simp add: generate_artifact_description_def)
      qed
    qed
  qed
qed

text \<open>
  Two shapes that follow: a sequence that ends with \<open>Done\<close>, has no error and only
  text in its chunks is text chunks and then \<open>Done\<close>; a sequence with \<open>Done\<close>
  in it and neither chunk nor error is \<open>Done\<close> alone.
\<close>

lemma text_chunks_shape:
  "filter is_error_event xs = [] \<Longrightarrow> list_all carries_text xs \<Longrightarrow>
   filter ends_sequence xs = [] \<Longrightarrow> map (Chunk \<circ> JStr) (map event_text xs) = xs"
proof (induction xs)
  case Nil
  then show ?case by simp
next
  case (Cons x xs)
  from Cons.prems have x: "\<not> is_error_event x" "carries_text x" "\<not> ends_sequence x"
    by (auto split: if_splits)
  then obtain s where "x = Chunk (JStr s)"
    by (cases x rule: carries_text.cases) simp_all
  moreover from Cons.prems have "filter is_error_event xs = []" "list_all carries_text xs"
      "filter ends_sequence xs = []"
    by (simp_all split: if_splits)
  then have "map (Chunk \<circ> JStr) (map event_text xs) = xs"
    by (rule Cons.IH)
  ultimately show ?case by (simp add: comp_def)
qed

lemma generate_text_then_done:
  assumes "events = generate_artifact_description service n tp ey ol stream"
    and "events \<noteq> []" and "last events = Done"
    and "filter is_error_event events = []" and "list_all carries_text events"
  shows "events = map (Chunk \<circ> JStr) (map event_text (butlast events)) @ [Done]"
proof -
  have split: "events = butlast events @ [Done]"
    using assms(2,3) by (metis append_butlast_last_id)
  have "filter ends_sequence (butlast events) = []"
    using generate_ends[of service n tp ey ol stream] assms(1)
    by (simp add: one_terminal_at_end_def)
  moreover have "filter is_error_event (butlast events) = []"
    using assms(4) by (rule filter_butlast_empty)
  moreover have "list_all carries_text (butlast events)"
    using assms(5) by (auto simp: list_all_iff dest: in_set_butlastD)
  ultimately have "map (Chunk \<circ> JStr) (map event_text (butlast events)) = butlast events"
    by (rule text_chunks_shape[rotated 2])
  with split show ?thesis by simp
qed

lemma generate_only_done:
  assumes "events = generate_artifact_description service n tp ey ol stream"
    and "Done \<in> set events"
    and "filter is_chunk_event events = []" and "filter is_error_event events = []"
  shows "events = [Done]"
proof -
  have all: "x = Done" if "x \<in> set events" for x
  proof -
    have "\<not> is_chunk_event x" "\<not> is_error_event x"
      using that assms(3,4) by (simp_all add: filter_empty_conv)
    then show ?thesis by (cases x) simp_all
  qed
  have ne: "events \<noteq> []" using assms(2) by auto
  have "filter ends_sequence (butlast events) = []"
    using generate_ends[of service n tp ey ol stream] assms(1)
    by (simp add: one_terminal_at_end_def)
  then have quiet: "\<not> ends_sequence x" if "x \<in> set (butlast events)" for x
    using that by (simp add: filter_empty_conv)
  have "butlast events = []"
  proof (rule ccontr)
    assume "butlast events \<noteq> []"
    then obtain x where x: "x \<in> set (butlast events)"
      by (cases "butlast events") auto
    then have "x = Done" using all in_set_butlastD by metis
    with quiet[OF x] show False by simp
  qed
  with ne have "events = [last events]"
    by (metis append_butlast_last_id append_Nil)
  moreover have "last events = Done" using all ne by simp
  ultimately show ?thesis by simp
qed

text \<open>
  Lines that neither break the loop nor raise are read through: the loop goes on with
  the lines after them.
\<close>

lemma read_lines_append:
  "read_lines pre None = (events, None) \<Longrightarrow> Done \<notin> set events \<Longrightarrow>
     read_lines (pre @ rest) ending =
       (events @ fst (read_lines rest ending), snd (read_lines rest ending))"
proof (induction pre arbitrary: events)
  case Nil
  then show ?case by simp
next
  case (Cons l pre)
  show ?case
  proof (cases l)
    case Blank
    with Cons show ?thesis by simp
  next
    case (Malformed msg)
    define evs where "evs = fst (read_lines pre None)"
    with Cons.prems Malformed have evs: "read_lines pre None = (evs, None)"
      "events = Error (JsonDecodeError msg) # evs"
      by (auto simp: read_lines_malformed prod_eq_iff simp del: read_lines.simps)
    with Cons.prems(2) have "Done \<notin> set evs" by simp
    from Cons.IH[OF evs(1) this] Malformed evs(2) show ?thesis
      by (simp add: read_lines_malformed del: read_lines.simps)
  next
    case (Parsed data)
    show ?thesis
    proof (cases "\<exists>kvs. data = JObj kvs")
      case True
      then obtain kvs where obj: "data = JObj kvs" by blast
      have nd: "\<not> done_flag kvs"
        using Cons.prems Parsed obj
        by (auto simp: read_lines_object simp del: read_lines.simps split: if_splits)
      define evs where "evs = fst (read_lines pre None)"
      with nd Cons.prems Parsed obj have evs: "read_lines pre None = (evs, None)"
        "events = response_chunk kvs @ evs"
        by (auto simp: read_lines_object prod_eq_iff simp del: read_lines.simps)
      with Cons.prems(2) have "Done \<notin> set evs" by simp
      from Cons.IH[OF evs(1) this] Parsed obj nd evs(2) show ?thesis
        by (simp add: read_lines_object del: read_lines.simps)
    next
      case False
      then obtain e where "read_lines (Parsed data # pre) None = ([], Some e)"
        using read_lines_not_object by blast
      with Parsed Cons.prems show ?thesis by simp
    qed
  qed
qed

section \<open>The loop of the view\<close>

lemma event_loop_Done_saved:
  "save_fault env = None \<Longrightarrow>
     event_loop env obj row acc (Done # events) =
       ([CompleteFrame acc],
        row\<lparr>ai_description := Some acc, ai_description_generated_at := Some (now env)\<rparr>)"
  by (simp add: save_update_fields_def)

lemma event_loop_Done_failed:
  "save_fault env = Some e \<Longrightarrow>
     event_loop env obj row acc (Done # events) = ([ErrorFrame (ExceptionText e)], row)"
  by (simp add: save_update_fields_def)

lemma event_loop_text_chunks:
  "event_loop env obj row acc (map (Chunk \<circ> JStr) ss @ events) =
     (map ChunkFrame ss @ fst (event_loop env obj row (acc @ concat ss) events),
      snd (event_loop env obj row (acc @ concat ss) events))"
  by (induction ss arbitrary: acc) (simp_all add: split_beta)

text \<open>
  A complete frame is yielded only at \<open>Done\<close>, after text chunks alone and a
  save that succeeded; an error frame is always the last frame and leaves the stored row
  as it was; the stored row is either untouched or has both description fields set.
\<close>

lemma event_loop_complete:
  "event_loop env obj row acc events = (frames, row') \<Longrightarrow> CompleteFrame t \<in> set frames \<Longrightarrow>
     \<exists>ss rest. events = map (Chunk \<circ> JStr) ss @ Done # rest \<and> save_fault env = None \<and>
       frames = map ChunkFrame ss @ [CompleteFrame t] \<and> t = acc @ concat ss \<and>
       row' = row\<lparr>ai_description := Some t, ai_description_generated_at := Some (now env)\<rparr>"
proof (induction env obj row acc events arbitrary: frames rule: event_loop.induct)
  case (1 env obj row acc)
  then show ?case by simp
next
  case (2 env obj row acc v events)
  show ?case
  proof (cases v)
    case (JStr s)
    obtain fs r where rec: "event_loop env obj row (acc @ s) events = (fs, r)"
      by (cases "event_loop env obj row (acc @ s) events")
    with 2(2) JStr have frames: "frames = ChunkFrame s # fs" and r: "r = row'"
      by simp_all
    with 2(3) have "CompleteFrame t \<in> set fs" by simp
    from 2(1)[OF JStr rec[unfolded r] this]
    obtain ss rest where h: "events = map (Chunk \<circ> JStr) ss @ Done # rest" "save_fault env = None"
       "fs = map ChunkFrame ss @ [CompleteFrame t]" "t = (acc @ s) @ concat ss"
       "row' = row\<lparr>ai_description := Some t, ai_description_generated_at := Some (now env)\<rparr>"
      by blast
    have "Chunk v # events = map (Chunk \<circ> JStr) (s # ss) @ Done # rest"
      using h(1) JStr by simp
    moreover have "frames = map ChunkFrame (s # ss) @ [CompleteFrame t]"
      using frames h(3) by simp
    moreover have "t = acc @ concat (s # ss)" using h(4) by simp
    ultimately show ?thesis using h(2) h(5) by blast
  qed (use 2(2,3) in auto)
next
  case (3 env obj row acc msg events)
  then show ?case by auto
next
  case (4 env obj row acc events)
  then have "save_fault env = None \<and> frames = [CompleteFrame t] \<and> t = acc \<and>
       row' = row\<lparr>ai_description := Some t, ai_description_generated_at := Some (now env)\<rparr>"
    by (cases "save_fault env") (auto simp: event_loop_Done_saved event_loop_Done_failed simp del: event_loop.simps)
  then show ?case by (intro exI[of _ "[]"] exI[of _ events]) simp
qed

lemma event_loop_error:
  "event_loop env obj row acc events = (frames, row') \<Longrightarrow> ErrorFrame m \<in> set frames \<Longrightarrow>
     row' = row \<and> last frames = ErrorFrame m"
proof (induction env obj row acc events arbitrary: frames rule: event_loop.induct)
  case (2 env obj row acc v events)
  then show ?case by (cases v) (auto split: prod.splits)
next
  case (4 env obj row acc events)
  then show ?case
    by (cases "save_fault env") (auto simp: event_loop_Done_saved event_loop_Done_failed simp del: event_loop.simps)
qed auto

lemma event_loop_row:
  "snd (event_loop env obj row acc events) = row \<or>
   (\<exists>t. snd (event_loop env obj row acc events) =
      row\<lparr>ai_description := Some t, ai_description_generated_at := Some (now env)\<rparr>)"
proof (induction env obj row acc events rule: event_loop.induct)
  case (2 env obj row acc v events)
  then show ?case by (cases v) (auto split: prod.splits)
next
  case (4 env obj row acc events)
  then show ?case
    by (cases "save_fault env") (auto simp: event_loop_Done_saved event_loop_Done_failed simp del: event_loop.simps)
qed auto

section \<open>The claims\<close>

subsection \<open>C1: the complete frame carries the concatenation of the chunks\<close>

text \<open>
  The claim is that whenever the events of the generator end with \<open>Done\<close>, the
  stream ends with a \<^verbatim>\<open>complete\<close> frame that carries the concatenation of the chunks
  and the same text is stored. Three sequences that end with \<open>Done\<close>: one with the
  error of a malformed line between two chunks, one whose chunk is a number, one whose
  save raises. Each stream ends with an \<^verbatim>\<open>error\<close> frame and the stored description
  is the old one.
\<close>

theorem done_stream_counterexample:
  "last (generate_artifact_description
           (replies (Response 200
              [Parsed (JObj [(''response'', JStr ''a'')]), Malformed ''Expecting value'',
               Parsed (JObj [(''response'', JStr ''b''), (''done'', JBool True)])] None))
           (name mirror) (time_period mirror) (estimated_year mirror) (origin_location mirror)
           True) = Done \<and>
   event_stream
     (replies (Response 200
        [Parsed (JObj [(''response'', JStr ''a'')]), Malformed ''Expecting value'',
         Parsed (JObj [(''response'', JStr ''b''), (''done'', JBool True)])] None))
     calm mirror =
     ([ChunkFrame ''a'', ErrorFrame (JsonDecodeError ''Expecting value'')], mirror) \<and>
   ai_description mirror = Some ''old text'' \<and>
   last (generate_artifact_description
           (replies (Response 200
              [Parsed (JObj [(''response'', JNum 7), (''done'', JBool True)])] None))
           (name mirror) (time_period mirror) (estimated_year mirror) (origin_location mirror)
           True) = Done \<and>
   event_stream
     (replies (Response 200
        [Parsed (JObj [(''response'', JNum 7), (''done'', JBool True)])] None))
     calm mirror = ([ErrorFrame (ExceptionText TypeError)], mirror) \<and>
   last (generate_artifact_description
           (replies (Response 200
              [Parsed (JObj [(''response'', JStr ''a''), (''done'', JBool True)])] None))
           (name mirror) (time_period mirror) (estimated_year mirror) (origin_location mirror)
           True) = Done \<and>
   event_stream
     (replies (Response 200
        [Parsed (JObj [(''response'', JStr ''a''), (''done'', JBool True)])] None))
     (calm\<lparr>save_fault := Some (OtherException ''database is locked'')\<rparr>) mirror =
     ([ChunkFrame ''a'', ErrorFrame (ExceptionText (OtherException ''database is locked''))],
      mirror)"
  by (simp add: event_stream_def generate_artifact_description_def replies_def
      save_update_fields_def mirror_def)

text \<open>
  C1, as the code has it. In every run of the event stream in which the events of the
  generator end with \<open>Done\<close>, hold no \<open>Error\<close> and only text in their chunks, and
  in which the save succeeds, the frames are one \<^verbatim>\<open>chunk\<close> frame for each chunk
  event, in order of arrival, and then a \<^verbatim>\<open>complete\<close> frame; its
  \<^verbatim>\<open>full_text\<close> is the concatenation of the contents of the chunk frames before
  it, and the same text is stored as \<^verbatim>\<open>ai_description\<close> together with the time
  of the clock.
\<close>

theorem done_stream_complete_frame:
  assumes "events = generate_artifact_description service (name artifact)
             (time_period artifact) (estimated_year artifact) (origin_location artifact) True"
    and "events \<noteq> []" and "last events = Done"
    and "filter is_error_event events = []"
    and "list_all carries_text events"
    and "save_fault env = None"
    and "event_stream service env artifact = (frames, row')"
  shows "frames \<noteq> [] \<and>
         butlast frames = map (ChunkFrame \<circ> event_text) (butlast events) \<and>
         last frames = CompleteFrame (concat (map chunk_content (butlast frames))) \<and>
         ai_description row' = Some (concat (map chunk_content (butlast frames))) \<and>
         ai_description_generated_at row' = Some (now env)"
proof -
  define texts where "texts = map event_text (butlast events)"
  have shape: "events = map (Chunk \<circ> JStr) texts @ [Done]"
    unfolding texts_def using generate_text_then_done[OF assms(1-5)] .
  have "event_stream service env artifact =
      event_loop env artifact artifact [] (map (Chunk \<circ> JStr) texts @ [Done])"
    using assms(1) shape by (simp add: event_stream_def)
  also have "\<dots> = (map ChunkFrame texts @ [CompleteFrame (concat texts)],
      artifact\<lparr>ai_description := Some (concat texts),
                ai_description_generated_at := Some (now env)\<rparr>)"
    by (simp add: event_loop_text_chunks event_loop_Done_saved[OF assms(6)]
        del: event_loop.simps)
  finally have run: "frames = map ChunkFrame texts @ [CompleteFrame (concat texts)]"
      "row' = artifact\<lparr>ai_description := Some (concat texts),
                        ai_description_generated_at := Some (now env)\<rparr>"
    using assms(7) by simp_all
  have content: "map chunk_content (map ChunkFrame texts) = texts"
    by (induction texts) simp_all
  have "map (ChunkFrame \<circ> event_text) (butlast events) = map ChunkFrame texts"
    by (simp add: texts_def)
  moreover have "butlast frames = map ChunkFrame texts" "last frames = CompleteFrame (concat texts)"
      "frames \<noteq> []"
    using run(1) by simp_all
  moreover have "ai_description row' = Some (concat texts)"
      "ai_description_generated_at row' = Some (now env)"
    using run(2) by simp_all
  ultimately show ?thesis using content by simp
qed

text \<open>
  The scenario of two chunks and a completion: the frames, the stored text and the
  concatenation.
\<close>

theorem done_stream_complete_frame_witness:
  "event_stream
     (replies (Response 200
        [Parsed (JObj [(''response'', JStr ''Goryeo'')]),
         Parsed (JObj [(''response'', JStr '' era''), (''done'', JBool False)]),
         Parsed (JObj [(''done'', JBool True)])] None))
     calm mirror =
   ([ChunkFrame ''Goryeo'', ChunkFrame '' era'', CompleteFrame ''Goryeo era''],
    mirror\<lparr>ai_description := Some ''Goryeo era'', ai_description_generated_at := Some 1000\<rparr>)
   \<and> ''Goryeo era'' = concat (map chunk_content [ChunkFrame ''Goryeo'', ChunkFrame '' era''])"
proof -
  let ?service = "replies (Response 200
        [Parsed (JObj [(''response'', JStr ''Goryeo'')]),
         Parsed (JObj [(''response'', JStr '' era''), (''done'', JBool False)]),
         Parsed (JObj [(''done'', JBool True)])] None)"
  let ?events = "[Chunk (JStr ''Goryeo''), Chunk (JStr '' era''), Done]"
  have gen: "?events = generate_artifact_description ?service (name mirror)
      (time_period mirror) (estimated_year mirror) (origin_location mirror) True"
    by (simp add: generate_artifact_description_def replies_def)
  have run: "event_stream ?service calm mirror =
     ([ChunkFrame ''Goryeo'', ChunkFrame '' era'', CompleteFrame ''Goryeo era''],
      mirror\<lparr>ai_description := Some ''Goryeo era'', ai_description_generated_at := Some 1000\<rparr>)"
    by (simp add: event_stream_def generate_artifact_description_def replies_def calm_def
        save_update_fields_def)
  have ne: "?events \<noteq> []" and l: "last ?events = Done"
    and e: "filter is_error_event ?events = []" and t: "list_all carries_text ?events"
    and s: "save_fault calm = None"
    by (simp_all add: calm_def)
  from done_stream_complete_frame[OF gen ne l e t s run] run show ?thesis by simp
qed

subsection \<open>C2: a body that ends without a completion record\<close>

text \<open>
  C2. The claim is that the frames are never empty and always end with a
  \<^verbatim>\<open>complete\<close> or an \<^verbatim>\<open>error\<close> frame. When the service answers with
  status 200 and a body that ends cleanly without any record whose \<^verbatim>\<open>done\<close>
  is true, the generator yields neither \<open>Done\<close> nor \<open>Error\<close>, the loop of the
  view runs out of events, and the stream ends after its last chunk frame, or with no
  frame at all for an empty body.
\<close>

theorem stream_ends_without_terminal_frame:
  "event_stream (replies (Response 200 [Parsed (JObj [(''response'', JStr ''a'')])] None))
     env artifact = ([ChunkFrame ''a''], artifact) \<and>
   event_stream (replies (Response 200 [] None)) env artifact = ([], artifact)"
  by (simp add: event_stream_def generate_artifact_description_def replies_def)

subsection \<open>C3: a malformed line\<close>

text \<open>
  The claim is that a malformed line followed by other lines puts no error frame on
  the stream. Here a malformed line is followed by a well-formed record that completes
  the generation; the stream is a single error frame and nothing is stored.
\<close>

theorem malformed_line_counterexample:
  "event_stream
     (replies (Response 200
        [Malformed ''Expecting value'',
         Parsed (JObj [(''response'', JStr ''a''), (''done'', JBool True)])] None))
     calm mirror = ([ErrorFrame (JsonDecodeError ''Expecting value'')], mirror)"
  by (simp add: event_stream_def generate_artifact_description_def replies_def)

text \<open>
  C3, as the code has it. When a line of the body fails to decode, after lines that
  yielded text chunks only, the generator yields an \<open>Error\<close> event for that line and
  its loop goes on with the lines that follow; the view puts that event on the stream
  as an \<^verbatim>\<open>error\<close> frame and ends the stream there, whatever follows, and the
  stored row is as it was.
\<close>

theorem malformed_line_is_surfaced:
  assumes "service (create_prompt (name artifact) (time_period artifact)
             (estimated_year artifact) (origin_location artifact)) True =
           Response 200 (pre @ Malformed msg # rest) ending"
    and "read_lines pre None = (map (Chunk \<circ> JStr) texts, None)"
  shows "generate_artifact_description service (name artifact) (time_period artifact)
           (estimated_year artifact) (origin_location artifact) True =
         map (Chunk \<circ> JStr) texts @ Error (JsonDecodeError msg) #
           (case read_lines rest ending of
              (events, None) \<Rightarrow> events
            | (events, Some e) \<Rightarrow> events @ [handler e]) \<and>
         event_stream service env artifact =
           (map ChunkFrame texts @ [ErrorFrame (JsonDecodeError msg)], artifact)"
proof -
  have "Done \<notin> set (map (Chunk \<circ> JStr) texts)" by auto
  from read_lines_append[OF assms(2) this, of "Malformed msg # rest" ending]
  have "read_lines (pre @ Malformed msg # rest) ending =
     (map (Chunk \<circ> JStr) texts @ Error (JsonDecodeError msg) # fst (read_lines rest ending),
      snd (read_lines rest ending))"
    by (simp add: read_lines_malformed del: read_lines.simps)
  with assms(1) have gen: "generate_artifact_description service (name artifact)
      (time_period artifact) (estimated_year artifact) (origin_location artifact) True =
         map (Chunk \<circ> JStr) texts @ Error (JsonDecodeError msg) #
           (case read_lines rest ending of
              (events, None) \<Rightarrow> events
            | (events, Some e) \<Rightarrow> events @ [handler e])"
    by (cases "read_lines rest ending")
       (auto simp: generate_artifact_description_def split: option.splits)
  then show ?thesis
    by (simp add: event_stream_def event_loop_text_chunks del: event_loop.simps(2))
qed

theorem malformed_line_is_surfaced_witness:
  "event_stream
     (replies (Response 200
        [Parsed (JObj [(''response'', JStr ''a'')]), Malformed ''Expecting value'',
         Parsed (JObj [(''response'', JStr ''b''), (''done'', JBool True)])] None))
     calm mirror =
   ([ChunkFrame ''a'', ErrorFrame (JsonDecodeError ''Expecting value'')], mirror) \<and>
   generate_artifact_description
     (replies (Response 200
        [Parsed (JObj [(''response'', JStr ''a'')]), Malformed ''Expecting value'',
         Parsed (JObj [(''response'', JStr ''b''), (''done'', JBool True)])] None))
     (name mirror) (time_period mirror) (estimated_year mirror) (origin_location mirror) True =
   [Chunk (JStr ''a''), Error (JsonDecodeError ''Expecting value''), Chunk (JStr ''b''), Done]"
proof -
  let ?service = "replies (Response 200
        ([Parsed (JObj [(''response'', JStr ''a'')])] @ Malformed ''Expecting value'' #
         [Parsed (JObj [(''response'', JStr ''b''), (''done'', JBool True)])]) None)"
  have a: "?service (create_prompt (name mirror) (time_period mirror)
             (estimated_year mirror) (origin_location mirror)) True =
           Response 200 ([Parsed (JObj [(''response'', JStr ''a'')])] @
             Malformed ''Expecting value'' #
             [Parsed (JObj [(''response'', JStr ''b''), (''done'', JBool True)])]) None"
    by (simp add: replies_def)
  have b: "read_lines [Parsed (JObj [(''response'', JStr ''a'')])] None =
             (map (Chunk \<circ> JStr) [''a''], None)"
    by simp
  from malformed_line_is_surfaced[where service = ?service and artifact = mirror
      and pre = "[Parsed (JObj [(''response'', JStr ''a'')])]" and msg = "''Expecting value''"
      and rest = "[Parsed (JObj [(''response'', JStr ''b''), (''done'', JBool True)])]"
      and ending = None and texts = "[''a'']" and env = calm, OF a b]
  show ?thesis by simp
qed

subsection \<open>C4: terminal events\<close>

text \<open>
  The claim is that at most one \<open>Done\<close> or \<open>Error\<close> occurs and nothing follows
  it. A malformed line followed by a completing record gives an \<open>Error\<close> followed
  by \<open>Done\<close>.
\<close>

theorem one_terminal_event_counterexample:
  "\<not> one_terminal_at_end is_terminal
      (generate_artifact_description
         (replies (Response 200
            [Malformed ''Expecting value'', Parsed (JObj [(''done'', JBool True)])] None))
         ''mirror'' None None None True)"
  by (simp add: generate_artifact_description_def replies_def one_terminal_at_end_def)

text \<open>
  C4, as the code has it. In every sequence of events of one call of the generator, at
  most one event is \<open>Done\<close> or an \<open>Error\<close> other than that of a malformed line,
  and no event follows it. The \<open>Error\<close> of a malformed line ends nothing.
\<close>

theorem one_final_event_at_end:
  "one_terminal_at_end ends_sequence
     (generate_artifact_description service n tp ey ol stream)"
  by (rule generate_ends)

subsection \<open>C5: an error frame stores nothing\<close>

text \<open>
  C5. In every run of the event stream that yields an \<^verbatim>\<open>error\<close> frame, that
  frame is the last one and the stored row is the row before the call: in particular
  \<^verbatim>\<open>ai_description\<close> and \<^verbatim>\<open>ai_description_generated_at\<close> are unchanged.
\<close>

theorem error_frame_leaves_row:
  assumes "event_stream service env artifact = (frames, row')"
    and "ErrorFrame msg \<in> set frames"
  shows "last frames = ErrorFrame msg \<and> row' = artifact \<and>
         ai_description row' = ai_description artifact \<and>
         ai_description_generated_at row' = ai_description_generated_at artifact"
proof -
  have "event_loop env artifact artifact []
          (generate_artifact_description service (name artifact) (time_period artifact)
             (estimated_year artifact) (origin_location artifact) True) = (frames, row')"
    using assms(1) by (simp add: event_stream_def)
  from event_loop_error[OF this assms(2)] show ?thesis by simp
qed

theorem error_frame_leaves_row_witness:
  "event_stream (replies (Response 500 [Parsed (JObj [(''done'', JBool True)])] None))
     calm mirror = ([ErrorFrame (OllamaApiError 500)], mirror) \<and>
   event_stream
     (replies (Response 200 [Parsed (JObj [(''response'', JStr ''a'')])] (Some TimeoutException)))
     calm mirror = ([ChunkFrame ''a'', ErrorFrame OllamaApiTimeout], mirror) \<and>
   ai_description mirror = Some ''old text''"
proof -
  have r1: "event_stream (replies (Response 500 [Parsed (JObj [(''done'', JBool True)])] None))
     calm mirror = ([ErrorFrame (OllamaApiError 500)], mirror)"
    by (simp add: event_stream_def generate_artifact_description_def replies_def)
  have r2: "event_stream
     (replies (Response 200 [Parsed (JObj [(''response'', JStr ''a'')])] (Some TimeoutException)))
     calm mirror = ([ChunkFrame ''a'', ErrorFrame OllamaApiTimeout], mirror)"
    by (simp add: event_stream_def generate_artifact_description_def replies_def)
  have "ErrorFrame (OllamaApiError 500) \<in> set [ErrorFrame (OllamaApiError 500)]"
    by simp
  from error_frame_leaves_row[OF r1 this] r1 r2 show ?thesis
    by (simp add: mirror_def)
qed

subsection \<open>C6: the two description fields are set and cleared together\<close>

text \<open>
  C6. If the timestamp of an artifact is set exactly when its description is, the same
  holds of the stored row after a run of the event stream and after a reset, whether
  or not the save succeeds. Reading the description is a function of the row and
  stores nothing.
\<close>

theorem description_fields_consistent:
  assumes "consistent artifact"
  shows "consistent (snd (event_stream service env artifact)) \<and>
         consistent (snd (regenerate_artifact_description fault artifact))"
proof -
  have "consistent (snd (event_stream service env artifact))"
    using event_loop_row[of env artifact artifact "[]"
        "generate_artifact_description service (name artifact) (time_period artifact)
           (estimated_year artifact) (origin_location artifact) True"] assms
    by (auto simp: event_stream_def consistent_def)
  moreover have "consistent (snd (regenerate_artifact_description fault artifact))"
    using assms
    by (cases fault)
       (simp_all add: regenerate_artifact_description_def save_update_fields_def consistent_def)
  ultimately show ?thesis by simp
qed

theorem description_fields_consistent_witness:
  "consistent mirror \<and>
   consistent (snd (event_stream (replies (Response 200 [Parsed (JObj [(''done'', JBool True)])] None))
                      calm mirror)) \<and>
   snd (regenerate_artifact_description None mirror) =
     mirror\<lparr>ai_description := None, ai_description_generated_at := None\<rparr> \<and>
   consistent (mirror\<lparr>ai_description := None, ai_description_generated_at := None\<rparr>)"
proof -
  have c: "consistent mirror" by (simp add: consistent_def mirror_def)
  have "snd (regenerate_artifact_description None mirror) =
     mirror\<lparr>ai_description := None, ai_description_generated_at := None\<rparr>"
    by (simp add: regenerate_artifact_description_def save_update_fields_def)
  with description_fields_consistent[OF c, of _ calm None] c show ?thesis
    by simp
qed

subsection \<open>C7: the staleness test\<close>

text \<open>
  C7. The staleness test is true when there is no cached description (\<^verbatim>\<open>None\<close>,
  or the empty text, which the code treats alike); when there is one, it is true
  exactly when the timestamp is set and the time since then is more than 30 days.
\<close>

theorem needs_ai_description_policy:
  "(ai_description artifact = None \<longrightarrow> needs_ai_description artifact clock) \<and>
   (\<not> filled (ai_description artifact) \<longrightarrow> needs_ai_description artifact clock) \<and>
   (filled (ai_description artifact) \<longrightarrow>
      needs_ai_description artifact clock =
        (\<exists>t. ai_description_generated_at artifact = Some t \<and>
             timedelta_days 30 < clock - t))"
  by (auto simp: needs_ai_description_def filled_def split: option.splits)

theorem needs_ai_description_policy_witness:
  "needs_ai_description (mirror\<lparr>ai_description := None\<rparr>) 6 \<and>
   needs_ai_description (mirror\<lparr>ai_description := Some []\<rparr>) 6 \<and>
   \<not> needs_ai_description mirror (5 + timedelta_days 30) \<and>
   needs_ai_description mirror (5 + timedelta_days 30 + 1)"
  using needs_ai_description_policy[of "mirror\<lparr>ai_description := None\<rparr>" 6]
    needs_ai_description_policy[of "mirror\<lparr>ai_description := Some []\<rparr>" 6]
    needs_ai_description_policy[of mirror "5 + timedelta_days 30"]
    needs_ai_description_policy[of mirror "5 + timedelta_days 30 + 1"]
  by (simp add: filled_def mirror_def)

subsection \<open>C8: the lines of the prompt\<close>

text \<open>
  C8. The prompt is one text: the head, the name, the line of the time period, the
  line of the estimated year, the line of the place of origin, in that order and each
  only when its field is present, and the tail. The name is always part of it.
\<close>

theorem create_prompt_lines:
  "create_prompt n tp ey ol =
     prompt_head @ n @ optional_line time_period_label tp @
       optional_line estimated_year_label ey @ optional_line origin_location_label ol @
       prompt_tail \<and>
   sublist n (create_prompt n tp ey ol)"
proof -
  have eq: "create_prompt n tp ey ol =
     prompt_head @ n @ (optional_line time_period_label tp @
       optional_line estimated_year_label ey @ optional_line origin_location_label ol @
       prompt_tail)"
    by (simp add: create_prompt_def optional_line_def filled_def split: option.splits)
  then have "sublist n (create_prompt n tp ey ol)"
    unfolding sublist_def by blast
  with eq show ?thesis by simp
qed

theorem create_prompt_lines_witness:
  "create_prompt ''mirror'' (Some ''Goryeo'') None (Some ''Kaesong'') =
     prompt_head @ ''mirror'' @ time_period_label @ ''Goryeo'' @
       origin_location_label @ ''Kaesong'' @ prompt_tail \<and>
   create_prompt ''mirror'' (Some []) (Some ''918'') None =
     prompt_head @ ''mirror'' @ estimated_year_label @ ''918'' @ prompt_tail"
  using create_prompt_lines[of "''mirror''" "Some ''Goryeo''" None "Some ''Kaesong''"]
    create_prompt_lines[of "''mirror''" "Some []" "Some ''918''" None]
  by (simp add: optional_line_def filled_def)

subsection \<open>C9: a status other than 200\<close>

text \<open>
  C9. When the service answers the one request of a call with a status code other
  than 200, the sequence of events is a single \<open>Error\<close> with that code, whatever the
  body holds.
\<close>

theorem bad_status_single_error:
  assumes "service (create_prompt n tp ey ol) stream = Response status_code lines ending"
    and "status_code \<noteq> 200"
  shows "generate_artifact_description service n tp ey ol stream =
           [Error (OllamaApiError status_code)]"
  using assms by (simp add: generate_artifact_description_def)

theorem bad_status_single_error_witness:
  "generate_artifact_description
     (replies (Response 500 [Parsed (JObj [(''response'', JStr ''a''), (''done'', JBool True)])]
        None))
     ''mirror'' None None None True = [Error (OllamaApiError 500)]"
proof -
  have "replies (Response 500 [Parsed (JObj [(''response'', JStr ''a''), (''done'', JBool True)])]
        None) (create_prompt ''mirror'' None None None) True =
      Response 500 [Parsed (JObj [(''response'', JStr ''a''), (''done'', JBool True)])] None"
    by (simp add: replies_def)
  from bad_status_single_error[where service = "replies (Response 500
        [Parsed (JObj [(''response'', JStr ''a''), (''done'', JBool True)])] None)"
      and n = "''mirror''" and tp = None and ey = None and ol = None and stream = True, OF this]
  show ?thesis by simp
qed

subsection \<open>C10: a completion with no text\<close>

text \<open>
  The claim is that \<open>Done\<close> with no chunk before it stores the empty text and ends
  the stream with a \<^verbatim>\<open>complete\<close> frame. Two sequences with no chunk before
  \<open>Done\<close>: one that starts with the error of a malformed line, and \<open>Done\<close> alone
  with a save that raises. Each stream is a single \<^verbatim>\<open>error\<close> frame and the stored
  description is the old one.
\<close>

theorem done_without_chunks_counterexample:
  "generate_artifact_description
     (replies (Response 200
        [Malformed ''Expecting value'', Parsed (JObj [(''done'', JBool True)])] None))
     (name mirror) (time_period mirror) (estimated_year mirror) (origin_location mirror) True =
     [Error (JsonDecodeError ''Expecting value''), Done] \<and>
   event_stream
     (replies (Response 200
        [Malformed ''Expecting value'', Parsed (JObj [(''done'', JBool True)])] None))
     calm mirror = ([ErrorFrame (JsonDecodeError ''Expecting value'')], mirror) \<and>
   ai_description mirror = Some ''old text'' \<and>
   generate_artifact_description
     (replies (Response 200 [Parsed (JObj [(''done'', JBool True)])] None))
     (name mirror) (time_period mirror) (estimated_year mirror) (origin_location mirror) True =
     [Done] \<and>
   event_stream (replies (Response 200 [Parsed (JObj [(''done'', JBool True)])] None))
     (calm\<lparr>save_fault := Some (OtherException ''database is locked'')\<rparr>) mirror =
     ([ErrorFrame (ExceptionText (OtherException ''database is locked''))], mirror)"
  by (simp add: event_stream_def generate_artifact_description_def replies_def
      save_update_fields_def mirror_def)

text \<open>
  C10, as the code has it. When the events of the generator hold \<open>Done\<close> and neither
  a chunk nor an error, and the save succeeds, the stream is a single
  \<^verbatim>\<open>complete\<close> frame with the empty text and the stored description is the empty
  text with a timestamp; reading the description afterwards reports that it is not
  generated, returns the plain description or the placeholder, and reports that a new
  generation is needed.
\<close>

theorem done_alone_stores_empty_text:
  assumes "events = generate_artifact_description service (name artifact)
             (time_period artifact) (estimated_year artifact) (origin_location artifact) True"
    and "Done \<in> set events"
    and "filter is_chunk_event events = []"
    and "filter is_error_event events = []"
    and "save_fault env = None"
    and "row' = artifact\<lparr>ai_description := Some [],
                            ai_description_generated_at := Some (now env)\<rparr>"
  shows "event_stream service env artifact = ([CompleteFrame []], row') \<and>
         ai_description row' = Some [] \<and>
         ai_description_generated_at row' \<noteq> None \<and>
         is_ai_generated (get_artifact_description clock row') = False \<and>
         response_description (get_artifact_description clock row') =
           (case description artifact of
              None \<Rightarrow> no_description
            | Some d \<Rightarrow> if d = [] then no_description else d) \<and>
         needs_regeneration (get_artifact_description clock row') = True \<and>
         needs_ai_description row' clock = True"
proof -
  have "events = [Done]" using generate_only_done[OF assms(1-4)] .
  with assms(1) have "generate_artifact_description service (name artifact)
      (time_period artifact) (estimated_year artifact) (origin_location artifact) True = [Done]"
    by simp
  then have "event_stream service env artifact = ([CompleteFrame []], row')"
    using assms(5,6) by (simp add: event_stream_def event_loop_Done_saved del: event_loop.simps)
  then show ?thesis
    using assms(6)
    by (simp add: get_artifact_description_def needs_ai_description_def filled_def
        split: option.splits)
qed

theorem done_alone_stores_empty_text_witness:
  "event_stream (replies (Response 200 [Blank, Parsed (JObj [(''done'', JBool True)])] None))
     calm mirror =
     ([CompleteFrame []],
      mirror\<lparr>ai_description := Some [], ai_description_generated_at := Some 1000\<rparr>) \<and>
   is_ai_generated (get_artifact_description 1001
     (mirror\<lparr>ai_description := Some [], ai_description_generated_at := Some 1000\<rparr>)) = False \<and>
   response_description (get_artifact_description 1001
     (mirror\<lparr>ai_description := Some [], ai_description_generated_at := Some 1000\<rparr>)) = ''bronze'' \<and>
   needs_ai_description
     (mirror\<lparr>ai_description := Some [], ai_description_generated_at := Some 1000\<rparr>) 1001"
proof -
  have g: "[Done] = generate_artifact_description
       (replies (Response 200 [Blank, Parsed (JObj [(''done'', JBool True)])] None))
       (name mirror) (time_period mirror) (estimated_year mirror) (origin_location mirror) True"
    by (simp add: generate_artifact_description_def replies_def)
  have d: "Done \<in> set [Done]" and c: "filter is_chunk_event [Done] = []"
    and e: "filter is_error_event [Done] = []" and s: "save_fault calm = None"
    by (simp_all add: calm_def)
  have r: "mirror\<lparr>ai_description := Some [], ai_description_generated_at := Some 1000\<rparr> =
      mirror\<lparr>ai_description := Some [], ai_description_generated_at := Some (now calm)\<rparr>"
    by (simp add: calm_def)
  from done_alone_stores_empty_text[OF g d c e s r, of 1001] show ?thesis
    by (simp add: mirror_def)
qed

end
